theory Spec2Isabelle
  imports Main "HOL-Library.Sublist"
begin

section \<open>The chat widget of static/js/app.js\<close>

text \<open>
  The class \<open>ChatBot\<close> of \<open>src/chat-bot/static/js/app.js\<close> is embedded by explicit state
  passing. The state is a record of the fields of the object together with the properties
  of the page elements and of \<open>localStorage\<close> that its methods read or write. An
  \<open>async\<close> method is cut at its \<open>await\<close>s: one function per synchronous segment, and a
  field of the state that holds the suspended activations. Texts are lists of code units;
  the model takes code units below 256. Layout (\<open>scrollTop\<close>, the height of the
  textarea) is left out: nothing reads it back. The page is taken to hold the elements the
  constructor looks up.
\<close>

subsection \<open>Values of the platform: JSON, errors, strings\<close>

text \<open>
  What \<open>response.json()\<close> yields. A number is carried by its \<open>ToString\<close> rendering,
  which is all the code can observe of it (its truthiness and its text). The members of an
  object are in source order; as in \<open>JSON.parse\<close>, the last of two equal keys wins.
\<close>

datatype json =
    JNull
  | JBool bool
  | JNum string
  | JStr string
  | JArr "json list"
  | JObj "(string \<times> json) list"

text \<open>Thrown values: every one the code meets is an \<open>Error\<close> object with a message.\<close>

datatype js_error = TypeError string | SyntaxError string | Error string

fun message :: "js_error \<Rightarrow> string" where
  "message (TypeError m) = m"
| "message (SyntaxError m) = m"
| "message (Error m) = m"

text \<open>
  Reading a property \<open>v.name\<close>, for a name that no prototype defines (\<open>status\<close>,
  \<open>detail\<close>, \<open>reply\<close>): \<open>null\<close> throws, an object gives its member or \<open>undefined\<close>
  (\<open>None\<close>), every other value gives \<open>undefined\<close>. The wording of the \<open>TypeError\<close> is
  the engine's (here V8's, the name between single quotes).
\<close>

definition reading_error :: "string \<Rightarrow> string \<Rightarrow> js_error" where
  "reading_error base name =
     TypeError (''Cannot read properties of '' @ base @ '' (reading '' @
                [CHR 0x27] @ name @ [CHR 0x27] @ '')'')"

fun js_prop :: "json \<Rightarrow> string \<Rightarrow> js_error + json option" where
  "js_prop JNull name = Inl (reading_error ''null'' name)"
| "js_prop (JObj kvs) name = Inr (map_of (rev kvs) name)"
| "js_prop v name = Inr None"

fun js_truthy :: "json \<Rightarrow> bool" where
  "js_truthy JNull = False"
| "js_truthy (JBool b) = b"
| "js_truthy (JNum n) = (n \<noteq> ''0'')"
| "js_truthy (JStr s) = (s \<noteq> [])"
| "js_truthy (JArr xs) = True"
| "js_truthy (JObj kvs) = True"

fun js_join :: "string \<Rightarrow> string list \<Rightarrow> string" where
  "js_join sep [] = []"
| "js_join sep [x] = x"
| "js_join sep (x # y # zs) = x @ sep @ js_join sep (y # zs)"

text \<open>\<open>String(v)\<close>, as \<open>new Error(v)\<close> and the \<open>textContent\<close> setter apply it.\<close>

fun js_toString :: "json \<Rightarrow> string" where
  "js_toString JNull = ''null''"
| "js_toString (JBool b) = (if b then ''true'' else ''false'')"
| "js_toString (JNum n) = n"
| "js_toString (JStr s) = s"
| "js_toString (JArr xs) =
     js_join '','' (map (\<lambda>x. if x = JNull then [] else js_toString x) xs)"
| "js_toString (JObj kvs) = ''[object Object]''"

text \<open>
  \<open>v.length\<close> for a value that is not \<open>null\<close>: the count of the code units of a
  string or of the elements of an array, the member \<open>length\<close> of an object that has
  one, and \<open>undefined\<close> otherwise.
\<close>

datatype js_len = Len nat | Member json | NoLength

fun js_length :: "json \<Rightarrow> js_len" where
  "js_length (JStr s) = Len (length s)"
| "js_length (JArr xs) = Len (length xs)"
| "js_length (JObj kvs) =
     (case map_of (rev kvs) ''length'' of Some v \<Rightarrow> Member v | None \<Rightarrow> NoLength)"
| "js_length v = NoLength"

text \<open>White space and line terminators of \<open>String.prototype.trim\<close>, below 256.\<close>

definition js_space :: "char \<Rightarrow> bool" where
  "js_space c = (c \<in> {CHR 0x09, CHR 0x0A, CHR 0x0B, CHR 0x0C, CHR 0x0D, CHR 0x20, CHR 0xA0})"

definition js_trim :: "string \<Rightarrow> string" where
  "js_trim s = rev (dropWhile js_space (rev (dropWhile js_space s)))"

text \<open>\<open>text.split(' ')\<close>: the pieces between single spaces, empty pieces kept.\<close>

fun js_split :: "string \<Rightarrow> string list" where
  "js_split [] = [[]]"
| "js_split (c # cs) =
     (if c = CHR '' '' then [] # js_split cs
      else (case js_split cs of w # ws \<Rightarrow> (c # w) # ws | [] \<Rightarrow> [[c]]))"

subsection \<open>The network\<close>

record request =
  http_method :: string
  url :: string
  headers :: "(string \<times> string) list"
  body :: "json option"

text \<open>
  A response as \<open>fetch\<close> resolves it, with the result of reading its body by
  \<open>response.json()\<close>: the parsed value, or the error the read rejects with.
\<close>

record response =
  status :: nat
  payload :: "js_error + json"

definition ok :: "response \<Rightarrow> bool" where
  "ok r = (200 \<le> status r \<and> status r \<le> 299)"

datatype fetch_outcome = Rejected js_error | Resolved response

text \<open>The argument of \<open>JSON.stringify\<close> in \<open>sendMessage\<close>, before serialisation.\<close>

definition chat_request :: "string \<Rightarrow> request" where
  "chat_request msg =
     \<lparr>http_method = ''POST'', url = ''/chat'',
      headers = [(''Content-Type'', ''application/json'')],
      body = Some (JObj [(''message'', JStr msg), (''max_length'', JNum ''100''),
                         (''temperature'', JNum ''0.7'')])\<rparr>"

definition health_request :: request where
  "health_request = \<lparr>http_method = ''GET'', url = ''/health'', headers = [], body = None\<rparr>"

subsection \<open>The page and the object\<close>

datatype sender = User | Bot

text \<open>
  A message element built by \<open>addMessage\<close>. \<open>words\<close> and \<open>cursor\<close> are the closure of
  the \<open>typeText\<close> that animates it: the pieces of the text and the index \<open>i\<close> of the
  iteration it is suspended in (\<open>None\<close>: no animation is running).
\<close>

record bubble =
  sender :: sender
  textContent :: string
  timeText :: string
  words :: "string list"
  cursor :: "nat option"

text \<open>
  An element inside \<open>#chatMessages\<close>: an element the page came with (whether it
  matches \<open>.welcome-message\<close>, its own markup, and the elements inside it), or a message
  element. Nothing inside an element that \<open>addMessage\<close> builds matches
  \<open>.welcome-message\<close>.
\<close>

datatype node = Page bool string "node list" | Bubble bubble

datatype bot_status = Online | Offline

text \<open>A \<open>sendMessage\<close> suspended at \<open>await fetch\<close> (with the read of the body), or at
  \<open>await simulateTypingDelay\<close> with the reply it holds and the length of the timer.\<close>

datatype chat_call = AwaitFetch | AwaitDelay json "nat option"

record state =
  inputValue :: string
  charCountText :: nat
  counterWarning :: bool
  counterError :: bool
  sendDisabled :: bool
  typingShown :: bool
  loadingShown :: bool
  loadingText :: string
  toastShown :: bool
  toastText :: string
  botStatus :: "bot_status option"
  dataTheme :: "string option"
  iconClass :: string
  container :: "node list"
  localStorage :: "string \<rightharpoonup> string"
  isTyping :: bool
  messageCount :: nat
  currentTheme :: string
  requests :: "request list"
  chatCalls :: "chat_call list"
  healthCalls :: nat

subsection \<open>Small methods\<close>

definition updateBotStatus :: "bot_status \<Rightarrow> state \<Rightarrow> state" where
  "updateBotStatus st s = s\<lparr>botStatus := Some st\<rparr>"

definition updateCharCount :: "state \<Rightarrow> state" where
  "updateCharCount s =
     (let count = length (inputValue s)
      in s\<lparr>charCountText := count,
           counterError := (400 < count),
           counterWarning := (\<not> 400 < count \<and> 300 < count)\<rparr>)"

definition updateSendButton :: "state \<Rightarrow> state" where
  "updateSendButton s =
     (let hasText = (0 < length (js_trim (inputValue s)))
      in s\<lparr>sendDisabled := (\<not> hasText \<or> isTyping s)\<rparr>)"

definition showTyping :: "state \<Rightarrow> state" where
  "showTyping s = updateSendButton (s\<lparr>isTyping := True, typingShown := True\<rparr>)"

definition hideTyping :: "state \<Rightarrow> state" where
  "hideTyping s = updateSendButton (s\<lparr>isTyping := False, typingShown := False\<rparr>)"

definition showLoading :: "string \<Rightarrow> state \<Rightarrow> state" where
  "showLoading m s = s\<lparr>loadingText := m, loadingShown := True\<rparr>"

definition hideLoading :: "state \<Rightarrow> state" where
  "hideLoading s = s\<lparr>loadingShown := False\<rparr>"

text \<open>The timer that \<open>showError\<close> sets is the event \<open>HideToast\<close> below.\<close>

definition showError :: "string \<Rightarrow> state \<Rightarrow> state" where
  "showError m s = s\<lparr>toastText := m, toastShown := True\<rparr>"

definition hideErrorToast :: "state \<Rightarrow> state" where
  "hideErrorToast s = s\<lparr>toastShown := False\<rparr>"

definition applyTheme :: "string \<Rightarrow> state \<Rightarrow> state" where
  "applyTheme theme s =
     s\<lparr>dataTheme := Some theme,
       iconClass := (if theme = ''light'' then ''fas fa-moon'' else ''fas fa-sun'')\<rparr>"

definition toggleTheme :: "state \<Rightarrow> state" where
  "toggleTheme s =
     (let s1 = s\<lparr>currentTheme := (if currentTheme s = ''light'' then ''dark'' else ''light'')\<rparr>;
          s2 = applyTheme (currentTheme s1) s1
      in s2\<lparr>localStorage := (localStorage s2)(''theme'' \<mapsto> currentTheme s2)\<rparr>)"

text \<open>\<open>simulateTypingDelay\<close>: the length in milliseconds of the timer it awaits.\<close>

definition simulateTypingDelay :: "nat \<Rightarrow> nat" where
  "simulateTypingDelay textLength =
     (let baseDelay = 1000; charDelay = min (textLength * 30) 2000
      in baseDelay + charDelay)"

text \<open>
  The length of the timer for the argument that \<open>sendMessage\<close> passes: computed for a
  count; for \<open>undefined\<close> and for a member of an object the arithmetic coerces the value
  (to \<open>NaN\<close>, or to a number the model does not compute), and the length is left open.
\<close>

fun timer_length :: "js_len \<Rightarrow> nat option" where
  "timer_length (Len n) = Some (simulateTypingDelay n)"
| "timer_length (Member v) = None"
| "timer_length NoLength = None"

subsection \<open>typeText and addMessage\<close>

text \<open>
  One turn of the loop of \<open>typeText\<close> at index \<open>i\<close>: the test, the body, and the
  suspension at the timer; or the exit.
\<close>

definition typeText_iteration :: "nat \<Rightarrow> bubble \<Rightarrow> bubble" where
  "typeText_iteration i b =
     (if i < length (words b)
      then b\<lparr>textContent := textContent b @ (if 0 < i then '' '' else []) @ words b ! i,
             cursor := Some i\<rparr>
      else b\<lparr>cursor := None\<rparr>)"

text \<open>
  The call, up to its first \<open>await\<close>. A text that is no string has no \<open>split\<close>: the
  promise of \<open>typeText\<close> is rejected, nobody awaits it, and the element stays empty.
\<close>

definition typeText :: "json \<Rightarrow> bubble \<Rightarrow> bubble" where
  "typeText text b =
     (case text of
        JStr t \<Rightarrow> typeText_iteration 0 (b\<lparr>textContent := [], words := js_split t\<rparr>)
      | _ \<Rightarrow> b\<lparr>textContent := []\<rparr>)"

text \<open>The timer of a suspended \<open>typeText\<close> fires: \<open>i++\<close> and the next turn.\<close>

definition typeText_resume :: "bubble \<Rightarrow> bubble" where
  "typeText_resume b =
     (case cursor b of None \<Rightarrow> b | Some i \<Rightarrow> typeText_iteration (Suc i) b)"

text \<open>The animation run until the loop exits.\<close>

function typeText_finish :: "bubble \<Rightarrow> bubble" where
  "typeText_finish b =
     (case cursor b of None \<Rightarrow> b | Some i \<Rightarrow> typeText_finish (typeText_resume b))"
  by pat_completeness auto
termination
  by (relation "measure (\<lambda>b. case cursor b of None \<Rightarrow> 0 | Some i \<Rightarrow> Suc (length (words b) - i))")
     (auto simp: typeText_resume_def typeText_iteration_def)

declare typeText_finish.simps [simp del]

text \<open>\<open>now\<close> is \<open>formatTime(new Date())\<close>, which the clock and the locale decide.\<close>

definition addMessage :: "json \<Rightarrow> sender \<Rightarrow> string \<Rightarrow> state \<Rightarrow> state" where
  "addMessage text who now s =
     (let messageDiv = \<lparr>sender = who, textContent = [], timeText = now, words = [], cursor = None\<rparr>;
          typed = (if who = Bot then typeText text messageDiv
                   else messageDiv\<lparr>textContent := (if text = JNull then [] else js_toString text)\<rparr>)
      in s\<lparr>messageCount := messageCount s + 1,
           container := container s @ [Bubble typed]\<rparr>)"

subsection \<open>sendMessage\<close>

text \<open>From the call to \<open>await fetch\<close>.\<close>

definition sendMessage :: "string \<Rightarrow> state \<Rightarrow> state" where
  "sendMessage now s =
     (let msg = js_trim (inputValue s)
      in if msg = [] \<or> isTyping s then s
         else
           (let s1 = addMessage (JStr msg) User now s;
                s2 = s1\<lparr>inputValue := []\<rparr>;
                s3 = updateSendButton (updateCharCount s2);
                s4 = showTyping s3
            in s4\<lparr>requests := requests s4 @ [chat_request msg],
                  chatCalls := chatCalls s4 @ [AwaitFetch]\<rparr>))"

text \<open>
  The \<open>try\<close> block from the settled \<open>fetch\<close> to the call of \<open>simulateTypingDelay\<close>:
  the error it throws, or the reply it goes on with. Between the \<open>fetch\<close> and the read
  of the body the method touches nothing, so the two \<open>await\<close>s are one step.
\<close>

definition sendMessage_try :: "fetch_outcome \<Rightarrow> js_error + json" where
  "sendMessage_try outcome =
     (case outcome of
        Rejected e \<Rightarrow> Inl e
      | Resolved r \<Rightarrow>
          (if \<not> ok r then
             (case payload r of
                Inl e \<Rightarrow> Inl e
              | Inr errorData \<Rightarrow>
                  (case js_prop errorData ''detail'' of
                     Inl e \<Rightarrow> Inl e
                   | Inr None \<Rightarrow> Inl (Error ''Failed to get response'')
                   | Inr (Some d) \<Rightarrow>
                       Inl (Error (if js_truthy d then js_toString d
                                   else ''Failed to get response''))))
           else
             (case payload r of
                Inl e \<Rightarrow> Inl e
              | Inr data \<Rightarrow>
                  (case js_prop data ''reply'' of
                     Inl e \<Rightarrow> Inl e
                   | Inr None \<Rightarrow>
                       Inl (reading_error ''undefined'' ''length'')
                   | Inr (Some JNull) \<Rightarrow>
                       Inl (reading_error ''null'' ''length'')
                   | Inr (Some reply) \<Rightarrow> Inr reply))))"

definition sendMessage_catch :: "js_error \<Rightarrow> string \<Rightarrow> state \<Rightarrow> state" where
  "sendMessage_catch error now s =
     addMessage (JStr ''Sorry, I encountered an error. Please try again.'') Bot now
       (showError (message error) (hideTyping s))"

definition drop_call :: "nat \<Rightarrow> chat_call list \<Rightarrow> chat_call list" where
  "drop_call k cs = take k cs @ drop (Suc k) cs"

text \<open>
  The \<open>fetch\<close> of the \<open>k\<close>-th suspended call settles: the method ends in its \<open>catch\<close>,
  or suspends again at the delay.
\<close>

definition sendMessage_settled :: "nat \<Rightarrow> fetch_outcome \<Rightarrow> string \<Rightarrow> state \<Rightarrow> state" where
  "sendMessage_settled k outcome now s =
     (if k < length (chatCalls s) \<and> chatCalls s ! k = AwaitFetch then
        (case sendMessage_try outcome of
           Inl error \<Rightarrow> sendMessage_catch error now (s\<lparr>chatCalls := drop_call k (chatCalls s)\<rparr>)
         | Inr reply \<Rightarrow>
             s\<lparr>chatCalls := (chatCalls s)
                  [k := AwaitDelay reply (timer_length (js_length reply))]\<rparr>)
      else s)"

text \<open>The timer of the delay of the \<open>k\<close>-th suspended call fires: the rest of the \<open>try\<close>.\<close>

definition sendMessage_delayed :: "nat \<Rightarrow> string \<Rightarrow> state \<Rightarrow> state" where
  "sendMessage_delayed k now s =
     (if k < length (chatCalls s) then
        (case chatCalls s ! k of
           AwaitFetch \<Rightarrow> s
         | AwaitDelay reply ms \<Rightarrow>
             addMessage reply Bot now (hideTyping (s\<lparr>chatCalls := drop_call k (chatCalls s)\<rparr>)))
      else s)"

subsection \<open>checkBackendHealth\<close>

definition checkBackendHealth :: "state \<Rightarrow> state" where
  "checkBackendHealth s =
     (let s1 = showLoading ''Connecting to AI Assistant...'' s
      in s1\<lparr>requests := requests s1 @ [health_request], healthCalls := Suc (healthCalls s1)\<rparr>)"

text \<open>The \<open>try\<close> block after \<open>await fetch\<close>: whether it throws.\<close>

definition checkBackendHealth_try :: "fetch_outcome \<Rightarrow> js_error + unit" where
  "checkBackendHealth_try outcome =
     (case outcome of
        Rejected e \<Rightarrow> Inl e
      | Resolved r \<Rightarrow>
          (case payload r of
             Inl e \<Rightarrow> Inl e
           | Inr data \<Rightarrow>
               (case js_prop data ''status'' of
                  Inl e \<Rightarrow> Inl e
                | Inr v \<Rightarrow>
                    if v = Some (JStr ''healthy'') then Inr ()
                    else Inl (Error ''Backend not healthy''))))"

definition checkBackendHealth_settled :: "fetch_outcome \<Rightarrow> state \<Rightarrow> state" where
  "checkBackendHealth_settled outcome s =
     (if 0 < healthCalls s then
        (let s0 = s\<lparr>healthCalls := healthCalls s - 1\<rparr>
         in case checkBackendHealth_try outcome of
              Inr u \<Rightarrow> updateBotStatus Online (hideLoading s0)
            | Inl error \<Rightarrow>
                showError ''Failed to connect to AI Assistant. Please try again later.''
                  (updateBotStatus Offline (hideLoading s0)))
      else s)"

subsection \<open>clearChat, the constructor, and the events of a session\<close>

text \<open>
  \<open>querySelector('.welcome-message')\<close> on a list of siblings: the first element in
  document order that matches, an element before the elements inside it.
\<close>

fun querySelector_in :: "node \<Rightarrow> node option"
  and querySelector :: "node list \<Rightarrow> node option" where
  "querySelector_in (Bubble b) = None"
| "querySelector_in (Page w html inside) =
     (if w then Some (Page w html inside) else querySelector inside)"
| "querySelector [] = None"
| "querySelector (n # ns) =
     (case querySelector_in n of Some m \<Rightarrow> Some m | None \<Rightarrow> querySelector ns)"

definition clearChat :: "string \<Rightarrow> state \<Rightarrow> state" where
  "clearChat now s =
     (let welcomeMessage = querySelector (container s);
          s1 = s\<lparr>container := []\<rparr>;
          s2 = (case welcomeMessage of
                  Some w \<Rightarrow> s1\<lparr>container := container s1 @ [w]\<rparr>
                | None \<Rightarrow> s1);
          s3 = s2\<lparr>messageCount := 0\<rparr>
      in addMessage (JStr ''Chat cleared! How can I help you?'') Bot now s3)"

text \<open>\<open>localStorage.getItem('theme') || 'light'\<close>\<close>

definition stored_theme :: "(string \<rightharpoonup> string) \<Rightarrow> string" where
  "stored_theme store =
     (case store ''theme'' of None \<Rightarrow> ''light'' | Some t \<Rightarrow> if t = [] then ''light'' else t)"

definition init :: "state \<Rightarrow> state" where
  "init s = applyTheme (currentTheme s) (checkBackendHealth s)"

text \<open>
  \<open>new ChatBot()\<close> on a loaded page: \<open>page\<close> gives the properties of the elements and
  the storage as the session finds them; the fields of the object are set.
\<close>

definition new_ChatBot :: "state \<Rightarrow> state" where
  "new_ChatBot page =
     init (page\<lparr>isTyping := False, messageCount := 0,
                currentTheme := stored_theme (localStorage page),
                requests := [], chatCalls := [], healthCalls := 0\<rparr>)"

text \<open>
  What can happen to a session: the listeners of \<open>setupEventListeners\<close>, and the
  continuations of the suspended methods.
\<close>

datatype event =
    Input string
  | Send string
  | ChatSettled nat fetch_outcome string
  | DelayElapsed nat string
  | TypeTick nat
  | ClearChat string
  | ToggleTheme
  | HideToast
  | HealthSettled fetch_outcome

definition type_tick :: "nat \<Rightarrow> state \<Rightarrow> state" where
  "type_tick k s =
     (if k < length (container s) then
        (case container s ! k of
           Bubble b \<Rightarrow> s\<lparr>container := (container s)[k := Bubble (typeText_resume b)]\<rparr>
         | Page w html inside \<Rightarrow> s)
      else s)"

fun step :: "event \<Rightarrow> state \<Rightarrow> state" where
  "step (Input v) s = updateSendButton (updateCharCount (s\<lparr>inputValue := v\<rparr>))"
| "step (Send now) s = sendMessage now s"
| "step (ChatSettled k outcome now) s = sendMessage_settled k outcome now s"
| "step (DelayElapsed k now) s = sendMessage_delayed k now s"
| "step (TypeTick k) s = type_tick k s"
| "step (ClearChat now) s = clearChat now s"
| "step ToggleTheme s = toggleTheme s"
| "step HideToast s = hideErrorToast s"
| "step (HealthSettled outcome) s = checkBackendHealth_settled outcome s"

definition run :: "event list \<Rightarrow> state \<Rightarrow> state" where
  "run evs s = fold step evs s"

subsection \<open>Notions the properties are stated with\<close>

text \<open>A chat call fails: the \<open>fetch\<close> is rejected, or the response is not a success.\<close>

fun failed :: "fetch_outcome \<Rightarrow> bool" where
  "failed (Rejected e) = True"
| "failed (Resolved r) = (\<not> ok r)"

text \<open>
  The answer of the health endpoint is \<open>{status: "healthy"}\<close>: a body that parses to
  an object whose member \<open>status\<close> is the string \<open>healthy\<close>.
\<close>

fun payload_is_healthy :: "fetch_outcome \<Rightarrow> bool" where
  "payload_is_healthy (Rejected e) = False"
| "payload_is_healthy (Resolved r) =
     (case payload r of
        Inr (JObj kvs) \<Rightarrow> map_of (rev kvs) ''status'' = Some (JStr ''healthy'')
      | _ \<Rightarrow> False)"

text \<open>The chat requests in flight: the calls suspended at their \<open>fetch\<close>.\<close>

definition in_flight :: "state \<Rightarrow> nat" where
  "in_flight s = length (filter (\<lambda>c. c = AwaitFetch) (chatCalls s))"

text \<open>
  The Message an element stands for: its sender, the text it shows once its animation
  has ended, and its time. An element of the page stands for itself.
\<close>

fun message_of :: "node \<Rightarrow> node + (sender \<times> string \<times> string)" where
  "message_of (Page w html inside) = Inl (Page w html inside)"
| "message_of (Bubble b) = Inr (sender b, textContent (typeText_finish b), timeText b)"

fun is_clear :: "event \<Rightarrow> bool" where
  "is_clear (ClearChat now) = True"
| "is_clear ev = False"

fun is_tick :: "event \<Rightarrow> bool" where
  "is_tick (TypeTick k) = True"
| "is_tick ev = False"

subsection \<open>Sample inputs\<close>

text \<open>A page whose \<open>#chatMessages\<close> holds one welcome element, and an empty storage.\<close>

definition welcome_page :: state where
  "welcome_page =
     \<lparr>inputValue = [], charCountText = 0, counterWarning = False, counterError = False,
      sendDisabled = True, typingShown = False, loadingShown = False,
      loadingText = ''Loading...'', toastShown = False, toastText = [],
      botStatus = None, dataTheme = None, iconClass = ''fas fa-moon'',
      container = [Page True ''Hello! How can I help you today?'' []],
      localStorage = Map.empty, isTyping = False, messageCount = 0, currentTheme = [],
      requests = [], chatCalls = [], healthCalls = 0\<rparr>"

definition blank_bubble :: bubble where
  "blank_bubble = \<lparr>sender = Bot, textContent = [], timeText = ''09:30'', words = [], cursor = None\<rparr>"

text \<open>A success of \<open>/chat\<close> with the reply \<open>Hi there\<close>, and a failure with a detail.\<close>

definition reply_ok :: fetch_outcome where
  "reply_ok = Resolved \<lparr>status = 200, payload = Inr (JObj [(''reply'', JStr ''Hi there'')])\<rparr>"

definition reply_500 :: fetch_outcome where
  "reply_500 = Resolved \<lparr>status = 500, payload = Inr (JObj [(''detail'', JStr ''Model not loaded'')])\<rparr>"

text \<open>A healthy answer of \<open>/health\<close> under the status code 503.\<close>

definition healthy_503 :: fetch_outcome where
  "healthy_503 = Resolved \<lparr>status = 503, payload = Inr (JObj [(''status'', JStr ''healthy'')])\<rparr>"

text \<open>A page whose welcome element lies inside a wrapper, after a first message.\<close>

definition nested_page :: state where
  "nested_page =
     welcome_page\<lparr>container :=
       [Bubble \<lparr>sender = User, textContent = ''Hi'', timeText = ''09:00'', words = [], cursor = None\<rparr>,
        Page False ''wrap'' [Page True ''Hello! How can I help you today?'' []]]\<rparr>"

text \<open>The page with \<open> Hello \<close> typed into the input, and with blanks only.\<close>

definition hello_page :: state where
  "hello_page = welcome_page\<lparr>inputValue := '' Hello ''\<rparr>"

definition blank_page :: state where
  "blank_page = welcome_page\<lparr>inputValue := ''   ''\<rparr>"

subsection \<open>Invariants of a session\<close>

text \<open>As many calls of \<open>sendMessage\<close> are suspended as \<open>isTyping\<close> says: one or none.\<close>

definition one_call :: "state \<Rightarrow> bool" where
  "one_call s = (length (chatCalls s) = (if isTyping s then 1 else 0))"

text \<open>The stored preference and the applied theme are the theme of the object.\<close>

definition theme_kept :: "state \<Rightarrow> bool" where
  "theme_kept s =
     (stored_theme (localStorage s) = currentTheme s \<and> dataTheme s = Some (currentTheme s))"

section \<open>Properties\<close>

subsection \<open>The typing animation\<close>

lemma js_split_not_Nil: "js_split t \<noteq> []"
  by (induction t) (auto split: list.splits)

lemma js_split_unsplit:
  "hd (js_split t) @ concat (map ((@) '' '') (tl (js_split t))) = t"
proof (induction t)
  case Nil
  show ?case by simp
next
  case (Cons c cs)
  obtain w ws where sp: "js_split cs = w # ws"
    using js_split_not_Nil [of cs] by (cases "js_split cs") auto
  with Cons show ?case by simp
qed

lemma typeText_finish_done: "cursor b = None \<Longrightarrow> typeText_finish b = b"
  by (subst typeText_finish.simps) simp

lemma typeText_finish_step:
  "cursor b = Some i \<Longrightarrow> typeText_finish b = typeText_finish (typeText_iteration (Suc i) b)"
  by (subst typeText_finish.simps) (simp add: typeText_resume_def)

lemma typeText_finish_resume: "typeText_finish (typeText_resume b) = typeText_finish b"
proof (cases "cursor b")
  case None
  then show ?thesis by (simp add: typeText_resume_def)
next
  case (Some i)
  then show ?thesis
    by (simp add: typeText_finish_step [of b i] typeText_resume_def)
qed

lemma typeText_finish_iteration:
  "typeText_finish (typeText_iteration (Suc i) b) =
     b\<lparr>textContent := textContent b @ concat (map ((@) '' '') (drop (Suc i) (words b))),
       cursor := None\<rparr>"
proof (induction "length (words b) - i" arbitrary: i b)
  case 0
  then have "\<not> Suc i < length (words b)" by simp
  then show ?case
    by (simp add: typeText_iteration_def typeText_finish_done)
next
  case (Suc n)
  show ?case
  proof (cases "Suc i < length (words b)")
    case False
    then show ?thesis by (simp add: typeText_iteration_def typeText_finish_done)
  next
    case True
    let ?b = "b\<lparr>textContent := textContent b @ '' '' @ words b ! Suc i, cursor := Some (Suc i)\<rparr>"
    have it: "typeText_iteration (Suc i) b = ?b"
      using True by (simp add: typeText_iteration_def)
    have n: "n = length (words ?b) - Suc i" using Suc.hyps(2) by simp
    have dr: "drop (Suc i) (words b) = words b ! Suc i # drop (Suc (Suc i)) (words b)"
      using True by (simp add: Cons_nth_drop_Suc)
    have "typeText_finish ?b = typeText_finish (typeText_iteration (Suc (Suc i)) ?b)"
      by (rule typeText_finish_step) simp
    also have "\<dots> = ?b\<lparr>textContent := textContent ?b @ concat (map ((@) '' '') (drop (Suc (Suc i)) (words ?b))),
       cursor := None\<rparr>"
      by (rule Suc.hyps(1) [OF n])
    finally show ?thesis using it dr by simp
  qed
qed

lemma typeText_finish_typeText:
  "typeText_finish (typeText (JStr t) b) = b\<lparr>textContent := t, words := js_split t, cursor := None\<rparr>"
proof -
  obtain w ws where sp: "js_split t = w # ws"
    using js_split_not_Nil [of t] by (cases "js_split t") auto
  let ?b0 = "b\<lparr>textContent := [], words := js_split t\<rparr>"
  let ?b1 = "?b0\<lparr>textContent := w, cursor := Some 0\<rparr>"
  have "typeText (JStr t) b = ?b1"
    by (simp add: typeText_def typeText_iteration_def sp)
  moreover have "typeText_finish ?b1 = typeText_finish (typeText_iteration (Suc 0) ?b1)"
    by (rule typeText_finish_step) simp
  moreover have "w @ concat (map ((@) '' '') ws) = t"
    using js_split_unsplit [of t] sp by simp
  ultimately show ?thesis
    by (simp add: typeText_finish_iteration sp)
qed

text \<open>
  C9. For every string \<open>text\<close>, the animation of \<open>typeText\<close> comes to its end, and the
  element then shows exactly \<open>text\<close>: the pieces of \<open>split(' ')\<close>, put together again with
  single spaces, are the text (with two spaces in a row, an empty piece stands between
  them).
\<close>

theorem typeText_shows_text:
  "textContent (typeText_finish (typeText (JStr text) b)) = text \<and>
   cursor (typeText_finish (typeText (JStr text) b)) = None"
  by (simp add: typeText_finish_typeText)

theorem typeText_shows_text_witness:
  "textContent (typeText_finish (typeText (JStr ''a  b c '') blank_bubble)) = ''a  b c '' \<and>
   js_split ''a  b c '' = [''a'', [], ''b'', ''c'', []]"
  using typeText_shows_text [of "''a  b c ''" blank_bubble] by simp

subsection \<open>The delay\<close>

text \<open>
  C8. For every length \<open>n\<close> of the reply, the delay before the bot Message is appended
  grows with \<open>n\<close> (it is never smaller for a longer reply; 30 ms for each code unit on top
  of the base of 1000 ms, as long as that stays under the cap) and is at most 3000 ms,
  whatever \<open>n\<close> is.
\<close>

theorem simulateTypingDelay_bounded:
  "(m \<le> n \<longrightarrow> simulateTypingDelay m \<le> simulateTypingDelay n) \<and>
   simulateTypingDelay n \<le> 3000 \<and>
   (n * 30 \<le> 2000 \<longrightarrow> simulateTypingDelay n = 1000 + 30 * n)"
  by (auto simp: simulateTypingDelay_def)

theorem simulateTypingDelay_bounded_witness:
  "simulateTypingDelay 8 \<le> simulateTypingDelay 500 \<and> simulateTypingDelay 500 \<le> 3000 \<and>
   simulateTypingDelay 8 = 1240 \<and> simulateTypingDelay 500 = 3000"
  using simulateTypingDelay_bounded [of 8 500] simulateTypingDelay_bounded [of 8 8]
  by (simp add: simulateTypingDelay_def)

subsection \<open>Effects of the methods\<close>

lemmas method_defs =
  updateBotStatus_def updateCharCount_def updateSendButton_def showTyping_def hideTyping_def
  showLoading_def hideLoading_def showError_def hideErrorToast_def applyTheme_def
  toggleTheme_def addMessage_def sendMessage_def sendMessage_catch_def
  sendMessage_settled_def sendMessage_delayed_def checkBackendHealth_def
  checkBackendHealth_settled_def clearChat_def init_def new_ChatBot_def type_tick_def

lemmas sample_defs =
  welcome_page_def hello_page_def blank_page_def nested_page_def reply_ok_def reply_500_def
  healthy_503_def blank_bubble_def

lemma typeText_keeps:
  "sender (typeText text b) = sender b"
  "timeText (typeText text b) = timeText b"
  by (simp_all add: typeText_def typeText_iteration_def split: json.splits)

lemma typeText_resume_keeps:
  "sender (typeText_resume b) = sender b"
  "timeText (typeText_resume b) = timeText b"
  by (simp_all add: typeText_resume_def typeText_iteration_def split: option.splits)

lemma sendMessage_catch_fields:
  "container (sendMessage_catch e now s) =
     container s @ [Bubble (typeText (JStr ''Sorry, I encountered an error. Please try again.'')
        \<lparr>sender = Bot, textContent = [], timeText = now, words = [], cursor = None\<rparr>)]"
  "toastShown (sendMessage_catch e now s)"
  "toastText (sendMessage_catch e now s) = message e"
  "\<not> isTyping (sendMessage_catch e now s)"
  "chatCalls (sendMessage_catch e now s) = chatCalls s"
  by (simp_all add: sendMessage_catch_def addMessage_def showError_def hideTyping_def
      updateSendButton_def Let_def)

lemma sendMessage_delayed_fields:
  assumes "k < length (chatCalls s)" "chatCalls s ! k = AwaitDelay reply ms"
  shows "container (sendMessage_delayed k now s) =
     container s @ [Bubble (typeText reply
        \<lparr>sender = Bot, textContent = [], timeText = now, words = [], cursor = None\<rparr>)]"
    and "\<not> isTyping (sendMessage_delayed k now s)"
    and "chatCalls (sendMessage_delayed k now s) = drop_call k (chatCalls s)"
  using assms
  by (simp_all add: sendMessage_delayed_def addMessage_def hideTyping_def
      updateSendButton_def Let_def)

lemma failed_throws: "failed outcome \<Longrightarrow> \<exists>e. sendMessage_try outcome = Inl e"
  by (cases outcome) (auto simp: sendMessage_try_def split: sum.splits option.splits)

subsection \<open>A failed chat call\<close>

text \<open>
  C1. Let the \<open>k\<close>-th suspended call of \<open>sendMessage\<close> wait for its \<open>fetch\<close>. When the
  call fails (the \<open>fetch\<close> is rejected, or the response is not a success), the \<open>try\<close>
  block throws and the \<open>catch\<close> takes the error: nothing leaves the method. The
  transcript gains the bot Message \<open>Sorry, I encountered an error. Please try again.\<close>,
  the toast is shown with the message of the error, and \<open>isTyping\<close> is false. Whatever the
  outcome, \<open>isTyping\<close> is false once the method has run to its end: after the \<open>catch\<close>
  when the \<open>try\<close> block throws, after the delay when it goes on with a reply.
  (\<open>hideTyping\<close> is the first statement of the \<open>catch\<close> and of the rest of the
  \<open>try\<close>; what follows it runs in the same synchronous segment, so no listener sees a
  state in between.)
\<close>

theorem sendMessage_failure:
  "k < length (chatCalls s) \<and> chatCalls s ! k = AwaitFetch \<longrightarrow>
     (failed outcome \<longrightarrow>
        (\<exists>e. sendMessage_try outcome = Inl e \<and>
             sendMessage_settled k outcome now s =
               sendMessage_catch e now (s\<lparr>chatCalls := drop_call k (chatCalls s)\<rparr>) \<and>
             toastText (sendMessage_settled k outcome now s) = message e) \<and>
        container (sendMessage_settled k outcome now s) =
          container s @ [Bubble (typeText (JStr ''Sorry, I encountered an error. Please try again.'')
             \<lparr>sender = Bot, textContent = [], timeText = now, words = [], cursor = None\<rparr>)] \<and>
        message_of (last (container (sendMessage_settled k outcome now s))) =
          Inr (Bot, ''Sorry, I encountered an error. Please try again.'', now) \<and>
        toastShown (sendMessage_settled k outcome now s) \<and>
        \<not> isTyping (sendMessage_settled k outcome now s) \<and>
        chatCalls (sendMessage_settled k outcome now s) = drop_call k (chatCalls s)) \<and>
     (case sendMessage_try outcome of
        Inl e \<Rightarrow> \<not> isTyping (sendMessage_settled k outcome now s)
      | Inr reply \<Rightarrow>
          \<not> isTyping (sendMessage_delayed k later (sendMessage_settled k outcome now s)))"
proof (intro impI, elim conjE)
  assume k: "k < length (chatCalls s)" and f: "chatCalls s ! k = AwaitFetch"
  let ?s' = "sendMessage_settled k outcome now s"
  let ?fallback = "Bubble (typeText (JStr ''Sorry, I encountered an error. Please try again.'')
             \<lparr>sender = Bot, textContent = [], timeText = now, words = [], cursor = None\<rparr>)"
  have thrown: "?s' = sendMessage_catch e now (s\<lparr>chatCalls := drop_call k (chatCalls s)\<rparr>)"
    if "sendMessage_try outcome = Inl e" for e
    using k f that by (simp add: sendMessage_settled_def)
  have goes_on: "?s' = s\<lparr>chatCalls := (chatCalls s)
        [k := AwaitDelay reply (timer_length (js_length reply))]\<rparr>"
    if "sendMessage_try outcome = Inr reply" for reply
    using k f that by (simp add: sendMessage_settled_def)
  have fail:
    "(\<exists>e. sendMessage_try outcome = Inl e \<and>
          ?s' = sendMessage_catch e now (s\<lparr>chatCalls := drop_call k (chatCalls s)\<rparr>) \<and>
          toastText ?s' = message e) \<and>
     container ?s' = container s @ [?fallback] \<and>
     message_of (last (container ?s')) =
       Inr (Bot, ''Sorry, I encountered an error. Please try again.'', now) \<and>
     toastShown ?s' \<and> \<not> isTyping ?s' \<and> chatCalls ?s' = drop_call k (chatCalls s)"
    if "failed outcome"
  proof -
    from that obtain e where e: "sendMessage_try outcome = Inl e"
      using failed_throws by blast
    show ?thesis
      using e
      by (simp add: thrown [OF e] sendMessage_catch_fields typeText_finish_typeText typeText_keeps)
  qed
  have fin: "(case sendMessage_try outcome of
        Inl e \<Rightarrow> \<not> isTyping ?s'
      | Inr reply \<Rightarrow> \<not> isTyping (sendMessage_delayed k later ?s'))"
  proof (cases "sendMessage_try outcome")
    case (Inl e)
    then show ?thesis by (simp add: thrown [OF Inl] sendMessage_catch_fields)
  next
    case (Inr reply)
    have "\<not> isTyping (sendMessage_delayed k later ?s')"
      by (rule sendMessage_delayed_fields(2)) (simp_all add: goes_on [OF Inr] k)
    with Inr show ?thesis by simp
  qed
  from fail fin show "(failed outcome \<longrightarrow>
        (\<exists>e. sendMessage_try outcome = Inl e \<and>
             ?s' = sendMessage_catch e now (s\<lparr>chatCalls := drop_call k (chatCalls s)\<rparr>) \<and>
             toastText ?s' = message e) \<and>
        container ?s' = container s @ [?fallback] \<and>
        message_of (last (container ?s')) =
          Inr (Bot, ''Sorry, I encountered an error. Please try again.'', now) \<and>
        toastShown ?s' \<and> \<not> isTyping ?s' \<and> chatCalls ?s' = drop_call k (chatCalls s)) \<and>
     (case sendMessage_try outcome of
        Inl e \<Rightarrow> \<not> isTyping ?s'
      | Inr reply \<Rightarrow> \<not> isTyping (sendMessage_delayed k later ?s'))"
    by blast
qed

lemma js_trim_hello: "js_trim '' Hello '' = ''Hello''"
  by (simp add: js_trim_def js_space_def)

lemma js_trim_blank: "js_trim ''   '' = []"
  by (simp add: js_trim_def js_space_def)

lemma hello_sent:
  "chatCalls (sendMessage ''10:00'' (new_ChatBot hello_page)) = [AwaitFetch]"
  "container (sendMessage ''10:00'' (new_ChatBot hello_page)) =
     [Page True ''Hello! How can I help you today?'' [],
      Bubble \<lparr>sender = User, textContent = ''Hello'', timeText = ''10:00'', words = [], cursor = None\<rparr>]"
  by (simp_all add: method_defs sample_defs js_trim_hello Let_def)

lemma sample_tries:
  "sendMessage_try reply_500 = Inl (Error ''Model not loaded'')"
  "sendMessage_try reply_ok = Inr (JStr ''Hi there'')"
  by (simp_all add: sendMessage_try_def reply_500_def reply_ok_def ok_def)

theorem sendMessage_failure_witness:
  "chatCalls (sendMessage ''10:00'' (new_ChatBot hello_page)) = [AwaitFetch] \<and>
   failed reply_500 \<and>
   container (sendMessage_settled 0 reply_500 ''10:01'' (sendMessage ''10:00'' (new_ChatBot hello_page))) =
     [Page True ''Hello! How can I help you today?'' [],
      Bubble \<lparr>sender = User, textContent = ''Hello'', timeText = ''10:00'', words = [], cursor = None\<rparr>,
      Bubble (typeText (JStr ''Sorry, I encountered an error. Please try again.'')
        \<lparr>sender = Bot, textContent = [], timeText = ''10:01'', words = [], cursor = None\<rparr>)] \<and>
   toastShown (sendMessage_settled 0 reply_500 ''10:01'' (sendMessage ''10:00'' (new_ChatBot hello_page))) \<and>
   toastText (sendMessage_settled 0 reply_500 ''10:01'' (sendMessage ''10:00'' (new_ChatBot hello_page))) =
     ''Model not loaded'' \<and>
   \<not> isTyping (sendMessage_settled 0 reply_500 ''10:01'' (sendMessage ''10:00'' (new_ChatBot hello_page))) \<and>
   \<not> isTyping (sendMessage_delayed 0 ''10:02''
        (sendMessage_settled 0 reply_ok ''10:01'' (sendMessage ''10:00'' (new_ChatBot hello_page))))"
proof -
  let ?s = "sendMessage ''10:00'' (new_ChatBot hello_page)"
  have f: "failed reply_500" by (simp add: reply_500_def ok_def)
  from sendMessage_failure [of 0 ?s reply_500 "''10:01''" "''10:02''"]
       sendMessage_failure [of 0 ?s reply_ok "''10:01''" "''10:02''"]
  show ?thesis
    by (simp add: hello_sent f sample_tries sendMessage_catch_fields)
qed

subsection \<open>The guard of sendMessage\<close>

lemma one_call_new: "one_call (new_ChatBot page)"
  by (simp add: one_call_def method_defs)

lemma one_call_step: "one_call s \<Longrightarrow> one_call (step ev s)"
  by (cases ev)
     (auto simp: one_call_def method_defs drop_call_def Let_def
           split: sum.splits chat_call.splits option.splits node.splits if_splits)

lemma one_call_run: "one_call s \<Longrightarrow> one_call (run evs s)"
  unfolding run_def by (induction evs arbitrary: s) (simp_all add: one_call_step)

lemma in_flight_le: "in_flight s \<le> length (chatCalls s)"
  by (simp add: in_flight_def)

text \<open>
  C2. When the trimmed input is empty, and when \<open>isTyping\<close> is true, \<open>sendMessage\<close>
  returns at once: the state after the call is the state before it, so the transcript is
  the same, no request is issued, nothing else changes. In every state a session reaches,
  from any page and by any events, at most one call of \<open>sendMessage\<close> is suspended, so at
  most one chat request is in flight.
\<close>

theorem sendMessage_guard:
  "(js_trim (inputValue s) = [] \<or> isTyping s \<longrightarrow> sendMessage now s = s) \<and>
   length (chatCalls (run evs (new_ChatBot page))) \<le> 1 \<and>
   in_flight (run evs (new_ChatBot page)) \<le> 1"
proof -
  have "one_call (run evs (new_ChatBot page))"
    by (rule one_call_run [OF one_call_new])
  then have "length (chatCalls (run evs (new_ChatBot page))) \<le> 1"
    by (simp add: one_call_def split: if_splits)
  moreover from this have "in_flight (run evs (new_ChatBot page)) \<le> 1"
    using in_flight_le [of "run evs (new_ChatBot page)"] by simp
  ultimately show ?thesis by (simp add: sendMessage_def)
qed

theorem sendMessage_guard_witness:
  "js_trim (inputValue (new_ChatBot blank_page)) = [] \<and>
   sendMessage ''10:00'' (new_ChatBot blank_page) = new_ChatBot blank_page \<and>
   isTyping (sendMessage ''10:00'' (new_ChatBot hello_page)) \<and>
   sendMessage ''10:01'' (sendMessage ''10:00'' (new_ChatBot hello_page)) =
     sendMessage ''10:00'' (new_ChatBot hello_page) \<and>
   in_flight (run [Send ''10:00'', Input ''again'', Send ''10:01''] (new_ChatBot hello_page)) \<le> 1"
proof -
  have b: "inputValue (new_ChatBot blank_page) = ''   ''"
    by (simp add: method_defs sample_defs)
  have t: "isTyping (sendMessage ''10:00'' (new_ChatBot hello_page))"
    by (simp add: method_defs sample_defs js_trim_hello Let_def)
  from sendMessage_guard [of "new_ChatBot blank_page" "''10:00''"
         "[Send ''10:00'', Input ''again'', Send ''10:01'']" hello_page]
       sendMessage_guard [of "sendMessage ''10:00'' (new_ChatBot hello_page)" "''10:01''" "[]" hello_page]
  show ?thesis
    by (simp add: b t js_trim_blank)
qed

subsection \<open>An accepted message\<close>

text \<open>
  C3, as the code has it. When the trimmed input is not empty and \<open>isTyping\<close> is
  false, \<open>sendMessage\<close> appends a user Message that carries the trimmed input (not the
  text as it was typed), empties the input, sets
  \<open>isTyping\<close>, and issues one request: a POST to \<open>/chat\<close> whose body holds the trimmed
  input as \<open>message\<close>, \<open>max_length\<close> 100 and \<open>temperature\<close> 0.7. When the \<open>fetch\<close> of a
  suspended call settles with a success whose body has the string \<open>R\<close> as \<open>reply\<close>, the
  call waits for the delay computed from the length of \<open>R\<close>; when the delay is over, the
  transcript gains a bot Message, which shows \<open>R\<close> once its animation has ended.
\<close>

theorem sendMessage_accepted:
  "(js_trim (inputValue s) \<noteq> [] \<and> \<not> isTyping s \<longrightarrow>
      container (sendMessage now s) =
        container s @ [Bubble \<lparr>sender = User, textContent = js_trim (inputValue s),
                               timeText = now, words = [], cursor = None\<rparr>] \<and>
      inputValue (sendMessage now s) = [] \<and>
      isTyping (sendMessage now s) \<and>
      requests (sendMessage now s) =
        requests s @
        [\<lparr>http_method = ''POST'', url = ''/chat'',
          headers = [(''Content-Type'', ''application/json'')],
          body = Some (JObj [(''message'', JStr (js_trim (inputValue s))),
                             (''max_length'', JNum ''100''), (''temperature'', JNum ''0.7'')])\<rparr>] \<and>
      chatCalls (sendMessage now s) = chatCalls s @ [AwaitFetch]) \<and>
   (k < length (chatCalls t) \<and> chatCalls t ! k = AwaitFetch \<and>
    ok r \<and> payload r = Inr data \<and> js_prop data ''reply'' = Inr (Some (JStr R)) \<longrightarrow>
      sendMessage_settled k (Resolved r) at t =
        t\<lparr>chatCalls := (chatCalls t)[k := AwaitDelay (JStr R) (Some (simulateTypingDelay (length R)))]\<rparr>) \<and>
   (k < length (chatCalls u) \<and> chatCalls u ! k = AwaitDelay (JStr R) ms \<longrightarrow>
      container (sendMessage_delayed k later u) =
        container u @ [Bubble (typeText (JStr R)
          \<lparr>sender = Bot, textContent = [], timeText = later, words = [], cursor = None\<rparr>)] \<and>
      message_of (last (container (sendMessage_delayed k later u))) = Inr (Bot, R, later) \<and>
      \<not> isTyping (sendMessage_delayed k later u))"
proof (intro conjI impI)
  assume a: "js_trim (inputValue s) \<noteq> [] \<and> \<not> isTyping s"
  then show "container (sendMessage now s) =
        container s @ [Bubble \<lparr>sender = User, textContent = js_trim (inputValue s),
                               timeText = now, words = [], cursor = None\<rparr>]"
    by (simp add: sendMessage_def addMessage_def showTyping_def updateSendButton_def
        updateCharCount_def Let_def)
  from a show "inputValue (sendMessage now s) = []"
    by (simp add: sendMessage_def addMessage_def showTyping_def updateSendButton_def
        updateCharCount_def Let_def)
  from a show "isTyping (sendMessage now s)"
    by (simp add: sendMessage_def addMessage_def showTyping_def updateSendButton_def
        updateCharCount_def Let_def)
  from a show "requests (sendMessage now s) =
        requests s @
        [\<lparr>http_method = ''POST'', url = ''/chat'',
          headers = [(''Content-Type'', ''application/json'')],
          body = Some (JObj [(''message'', JStr (js_trim (inputValue s))),
                             (''max_length'', JNum ''100''), (''temperature'', JNum ''0.7'')])\<rparr>]"
    by (simp add: sendMessage_def addMessage_def showTyping_def updateSendButton_def
        updateCharCount_def chat_request_def Let_def)
  from a show "chatCalls (sendMessage now s) = chatCalls s @ [AwaitFetch]"
    by (simp add: sendMessage_def addMessage_def showTyping_def updateSendButton_def
        updateCharCount_def Let_def)
next
  assume "k < length (chatCalls t) \<and> chatCalls t ! k = AwaitFetch \<and>
    ok r \<and> payload r = Inr data \<and> js_prop data ''reply'' = Inr (Some (JStr R))"
  then show "sendMessage_settled k (Resolved r) at t =
        t\<lparr>chatCalls := (chatCalls t)[k := AwaitDelay (JStr R) (Some (simulateTypingDelay (length R)))]\<rparr>"
    by (simp add: sendMessage_settled_def sendMessage_try_def)
next
  assume b: "k < length (chatCalls u) \<and> chatCalls u ! k = AwaitDelay (JStr R) ms"
  then have c: "container (sendMessage_delayed k later u) =
        container u @ [Bubble (typeText (JStr R)
          \<lparr>sender = Bot, textContent = [], timeText = later, words = [], cursor = None\<rparr>)]"
    by (simp add: sendMessage_delayed_fields)
  then show "container (sendMessage_delayed k later u) =
        container u @ [Bubble (typeText (JStr R)
          \<lparr>sender = Bot, textContent = [], timeText = later, words = [], cursor = None\<rparr>)]" .
  from c show "message_of (last (container (sendMessage_delayed k later u))) = Inr (Bot, R, later)"
    by (simp add: typeText_finish_typeText typeText_keeps)
  from b show "\<not> isTyping (sendMessage_delayed k later u)"
    by (simp add: sendMessage_delayed_fields)
qed

theorem sendMessage_accepted_witness:
  "js_trim (inputValue (new_ChatBot hello_page)) = ''Hello'' \<and>
   \<not> isTyping (new_ChatBot hello_page) \<and>
   container (sendMessage ''10:00'' (new_ChatBot hello_page)) =
     [Page True ''Hello! How can I help you today?'' [],
      Bubble \<lparr>sender = User, textContent = ''Hello'', timeText = ''10:00'', words = [], cursor = None\<rparr>] \<and>
   requests (sendMessage ''10:00'' (new_ChatBot hello_page)) =
     [health_request, chat_request ''Hello''] \<and>
   chatCalls (sendMessage_settled 0 reply_ok ''10:01'' (sendMessage ''10:00'' (new_ChatBot hello_page))) =
     [AwaitDelay (JStr ''Hi there'') (Some 1240)] \<and>
   message_of (last (container (sendMessage_delayed 0 ''10:02''
     (sendMessage_settled 0 reply_ok ''10:01'' (sendMessage ''10:00'' (new_ChatBot hello_page)))))) =
     Inr (Bot, ''Hi there'', ''10:02'') \<and>
   \<not> isTyping (sendMessage_delayed 0 ''10:02''
     (sendMessage_settled 0 reply_ok ''10:01'' (sendMessage ''10:00'' (new_ChatBot hello_page))))"
proof -
  let ?s = "new_ChatBot hello_page"
  let ?t = "sendMessage ''10:00'' ?s"
  let ?r = "\<lparr>status = 200, payload = Inr (JObj [(''reply'', JStr ''Hi there'')])\<rparr>"
  let ?u = "sendMessage_settled 0 (Resolved ?r) ''10:01'' ?t"
  have i: "inputValue ?s = '' Hello ''" "\<not> isTyping ?s" "requests ?s = [health_request]"
    by (simp_all add: method_defs sample_defs)
  have r: "ok ?r"
    by (simp add: ok_def)
  have u: "chatCalls ?u = [AwaitDelay (JStr ''Hi there'') (Some 1240)]"
    using sample_tries(2)
    by (simp add: sendMessage_settled_def hello_sent reply_ok_def simulateTypingDelay_def)
  note th = sendMessage_accepted [where s = ?s and now = "''10:00''" and k = 0 and t = ?t and r = ?r
         and data = "JObj [(''reply'', JStr ''Hi there'')]" and R = "''Hi there''"
         and at = "''10:01''" and u = ?u and ms = "Some 1240" and later = "''10:02''"]
  have sent: "container ?t = container ?s @
      [Bubble \<lparr>sender = User, textContent = ''Hello'', timeText = ''10:00'', words = [], cursor = None\<rparr>] \<and>
     requests ?t = [health_request, chat_request ''Hello'']"
    using th [THEN conjunct1] by (simp add: i js_trim_hello chat_request_def)
  have shown: "message_of (last (container (sendMessage_delayed 0 ''10:02'' ?u))) =
      Inr (Bot, ''Hi there'', ''10:02'') \<and> \<not> isTyping (sendMessage_delayed 0 ''10:02'' ?u)"
    using th [THEN conjunct2, THEN conjunct2] by (simp add: u typeText_keeps typeText_finish_typeText)
  have "container ?s = [Page True ''Hello! How can I help you today?'' []]"
    by (simp add: method_defs sample_defs)
  with sent shown show ?thesis
    unfolding reply_ok_def by (simp add: i u js_trim_hello)
qed

text \<open>
  The user Message does not carry the text as it was typed: with \<open> Hello \<close> in the
  input, blanks around the word, the Message carries \<open>Hello\<close>.
\<close>

theorem sendMessage_accepted_counterexample:
  "inputValue (new_ChatBot hello_page) = '' Hello '' \<and>
   js_trim (inputValue (new_ChatBot hello_page)) \<noteq> [] \<and>
   \<not> isTyping (new_ChatBot hello_page) \<and>
   container (sendMessage ''10:00'' (new_ChatBot hello_page)) ! 1 =
     Bubble \<lparr>sender = User, textContent = ''Hello'', timeText = ''10:00'', words = [], cursor = None\<rparr> \<and>
   message_of (container (sendMessage ''10:00'' (new_ChatBot hello_page)) ! 1) \<noteq>
     Inr (User, inputValue (new_ChatBot hello_page), ''10:00'')"
proof -
  have i: "inputValue (new_ChatBot hello_page) = '' Hello ''" "\<not> isTyping (new_ChatBot hello_page)"
    by (simp_all add: method_defs sample_defs)
  show ?thesis
    by (simp add: i hello_sent js_trim_hello typeText_finish_done)
qed

subsection \<open>The health check\<close>

lemma health_try_cases:
  "(payload_is_healthy outcome \<and> checkBackendHealth_try outcome = Inr ()) \<or>
   (\<not> payload_is_healthy outcome \<and> (\<exists>e. checkBackendHealth_try outcome = Inl e))"
proof (cases outcome)
  case (Rejected e)
  then show ?thesis by (simp add: checkBackendHealth_try_def)
next
  case (Resolved r)
  show ?thesis
  proof (cases "payload r")
    case (Inl e)
    with Resolved show ?thesis by (simp add: checkBackendHealth_try_def)
  next
    case (Inr data)
    with Resolved show ?thesis
      by (cases data) (simp_all add: checkBackendHealth_try_def)
  qed
qed

lemma welcome_health:
  "healthCalls (new_ChatBot welcome_page) = 1"
  "toastShown (new_ChatBot welcome_page) = False"
  "toastText (new_ChatBot welcome_page) = []"
  "botStatus (new_ChatBot welcome_page) = None"
  by (simp_all add: method_defs sample_defs)

text \<open>
  C4. When the pending health check settles, the status becomes online exactly when the
  answer is a body that parses to an object whose \<open>status\<close> is the string \<open>healthy\<close>.
  On every other outcome (a rejected \<open>fetch\<close>, a body that does not parse, any other
  value) the status becomes offline and the toast is shown with the fixed text.
\<close>

theorem checkBackendHealth_status:
  "0 < healthCalls s \<longrightarrow>
     (botStatus (checkBackendHealth_settled outcome s) = Some Online) = payload_is_healthy outcome \<and>
     (\<not> payload_is_healthy outcome \<longrightarrow>
        botStatus (checkBackendHealth_settled outcome s) = Some Offline \<and>
        toastShown (checkBackendHealth_settled outcome s) \<and>
        toastText (checkBackendHealth_settled outcome s) =
          ''Failed to connect to AI Assistant. Please try again later.'')"
  using health_try_cases [of outcome]
  by (auto simp: checkBackendHealth_settled_def updateBotStatus_def hideLoading_def showError_def)

theorem checkBackendHealth_status_witness:
  "0 < healthCalls (new_ChatBot welcome_page) \<and>
   payload_is_healthy healthy_503 \<and>
   botStatus (checkBackendHealth_settled healthy_503 (new_ChatBot welcome_page)) = Some Online \<and>
   \<not> payload_is_healthy (Rejected (TypeError ''Failed to fetch'')) \<and>
   botStatus (checkBackendHealth_settled (Rejected (TypeError ''Failed to fetch''))
     (new_ChatBot welcome_page)) = Some Offline \<and>
   toastShown (checkBackendHealth_settled (Rejected (TypeError ''Failed to fetch''))
     (new_ChatBot welcome_page))"
proof -
  have h: "payload_is_healthy healthy_503"
    by (simp add: healthy_503_def)
  from checkBackendHealth_status [of "new_ChatBot welcome_page" healthy_503]
       checkBackendHealth_status [of "new_ChatBot welcome_page" "Rejected (TypeError ''Failed to fetch'')"]
  show ?thesis
    by (simp add: welcome_health h)
qed

text \<open>
  C10. \<open>checkBackendHealth\<close> decides by the member \<open>status\<close> of the parsed body and by
  nothing else of the response. It never reads the status code: with any other code the
  outcome is the same. Whatever the code, the status becomes online exactly when the
  member \<open>status\<close> of the body is the string \<open>healthy\<close>, and offline with the toast
  otherwise. So a response that is not a success (a code outside 200..299) whose body
  parses to \<open>{status: "healthy"}\<close> sets the status online, and the toast stays as it was.
\<close>

theorem health_ignores_http_status:
  "checkBackendHealth_settled (Resolved (r\<lparr>status := code\<rparr>)) s =
     checkBackendHealth_settled (Resolved r) s \<and>
   (0 < healthCalls s \<and> payload r = Inr (JObj [(''status'', JStr ''healthy'')]) \<longrightarrow>
      botStatus (checkBackendHealth_settled (Resolved (r\<lparr>status := code\<rparr>)) s) = Some Online \<and>
      toastShown (checkBackendHealth_settled (Resolved (r\<lparr>status := code\<rparr>)) s) = toastShown s \<and>
      toastText (checkBackendHealth_settled (Resolved (r\<lparr>status := code\<rparr>)) s) = toastText s) \<and>
   (0 < healthCalls s \<and> payload r = Inr (JObj kvs) \<longrightarrow>
      (botStatus (checkBackendHealth_settled (Resolved (r\<lparr>status := code\<rparr>)) s) = Some Online) =
        (map_of (rev kvs) ''status'' = Some (JStr ''healthy'')) \<and>
      (botStatus (checkBackendHealth_settled (Resolved (r\<lparr>status := code\<rparr>)) s) = Some Offline) =
        (map_of (rev kvs) ''status'' \<noteq> Some (JStr ''healthy'')) \<and>
      toastShown (checkBackendHealth_settled (Resolved (r\<lparr>status := code\<rparr>)) s) =
        (map_of (rev kvs) ''status'' \<noteq> Some (JStr ''healthy'') \<or> toastShown s)) \<and>
   (0 < healthCalls s \<and> payload r = Inr data \<longrightarrow>
      (botStatus (checkBackendHealth_settled (Resolved (r\<lparr>status := code\<rparr>)) s) = Some Online) =
        (js_prop data ''status'' = Inr (Some (JStr ''healthy''))) \<and>
      (botStatus (checkBackendHealth_settled (Resolved (r\<lparr>status := code\<rparr>)) s) = Some Offline) =
        (js_prop data ''status'' \<noteq> Inr (Some (JStr ''healthy''))))"
proof -
  let ?s' = "checkBackendHealth_settled (Resolved (r\<lparr>status := code\<rparr>)) s"
  have same: "?s' = checkBackendHealth_settled (Resolved r) s"
    by (simp add: checkBackendHealth_settled_def checkBackendHealth_try_def)
  have one: "0 < healthCalls s \<and> payload r = Inr (JObj [(''status'', JStr ''healthy'')]) \<longrightarrow>
      botStatus ?s' = Some Online \<and> toastShown ?s' = toastShown s \<and> toastText ?s' = toastText s"
    by (auto simp: checkBackendHealth_settled_def checkBackendHealth_try_def updateBotStatus_def
        hideLoading_def showError_def)
  have obj: "0 < healthCalls s \<and> payload r = Inr (JObj kvs) \<longrightarrow>
      (botStatus ?s' = Some Online) = (map_of (rev kvs) ''status'' = Some (JStr ''healthy'')) \<and>
      (botStatus ?s' = Some Offline) = (map_of (rev kvs) ''status'' \<noteq> Some (JStr ''healthy'')) \<and>
      toastShown ?s' = (map_of (rev kvs) ''status'' \<noteq> Some (JStr ''healthy'') \<or> toastShown s)"
    by (auto simp: checkBackendHealth_settled_def checkBackendHealth_try_def updateBotStatus_def
        hideLoading_def showError_def)
  have any: "0 < healthCalls s \<and> payload r = Inr data \<longrightarrow>
      (botStatus ?s' = Some Online) = (js_prop data ''status'' = Inr (Some (JStr ''healthy''))) \<and>
      (botStatus ?s' = Some Offline) = (js_prop data ''status'' \<noteq> Inr (Some (JStr ''healthy'')))"
    by (auto simp: checkBackendHealth_settled_def checkBackendHealth_try_def updateBotStatus_def
        hideLoading_def showError_def split: sum.splits)
  from same one obj any show ?thesis by blast
qed

theorem health_ignores_http_status_witness:
  "\<not> ok \<lparr>status = 503, payload = Inr (JObj [(''status'', JStr ''healthy'')])\<rparr> \<and>
   botStatus (checkBackendHealth_settled healthy_503 (new_ChatBot welcome_page)) = Some Online \<and>
   \<not> toastShown (checkBackendHealth_settled healthy_503 (new_ChatBot welcome_page)) \<and>
   ok \<lparr>status = 200, payload = Inr (JObj [(''status'', JStr ''degraded'')])\<rparr> \<and>
   botStatus (checkBackendHealth_settled
     (Resolved \<lparr>status = 200, payload = Inr (JObj [(''status'', JStr ''degraded'')])\<rparr>)
     (new_ChatBot welcome_page)) = Some Offline \<and>
   toastShown (checkBackendHealth_settled
     (Resolved \<lparr>status = 200, payload = Inr (JObj [(''status'', JStr ''degraded'')])\<rparr>)
     (new_ChatBot welcome_page))"
  using health_ignores_http_status [where code = 503 and s = "new_ChatBot welcome_page"
      and r = "\<lparr>status = 200, payload = Inr (JObj [(''status'', JStr ''healthy'')])\<rparr>"
      and kvs = "[(''status'', JStr ''healthy'')]"
      and data = "JObj [(''status'', JStr ''healthy'')]", THEN conjunct2]
    health_ignores_http_status [where code = 200 and s = "new_ChatBot welcome_page"
      and r = "\<lparr>status = 200, payload = Inr (JObj [(''status'', JStr ''degraded'')])\<rparr>"
      and kvs = "[(''status'', JStr ''degraded'')]"
      and data = "JObj [(''status'', JStr ''degraded'')]", THEN conjunct2, THEN conjunct2]
  by (simp add: welcome_health healthy_503_def ok_def)

subsection \<open>clearChat\<close>

lemma querySelector_matches:
  "querySelector_in n = Some w \<Longrightarrow> querySelector_in w = Some w"
  "querySelector ns = Some w \<Longrightarrow> querySelector_in w = Some w"
  by (induction n and ns rule: querySelector_in_querySelector.induct)
     (auto split: if_splits option.splits)

lemma querySelector_Bubble: "querySelector [Bubble b] = None"
  by simp

text \<open>
  C5, as the code has it. After \<open>clearChat\<close>, whatever the container held, it holds a
  copy of the welcome element when there was one (the first element inside the container
  that matches \<open>.welcome-message\<close>, in document order, a child or an element further
  inside), and after it one new bot Message with the text
  \<open>Chat cleared! How can I help you?\<close>: two elements, or one when no element inside the
  container matched. \<open>messageCount\<close> is 1. A second call leaves the state of a single
  call made at the time of the second.
\<close>

theorem clearChat_result:
  "container (clearChat now s) =
     (case querySelector (container s) of None \<Rightarrow> [] | Some w \<Rightarrow> [w]) @
     [Bubble (typeText (JStr ''Chat cleared! How can I help you?'')
        \<lparr>sender = Bot, textContent = [], timeText = now, words = [], cursor = None\<rparr>)] \<and>
   length (container (clearChat now s)) =
     (case querySelector (container s) of None \<Rightarrow> 1 | Some w \<Rightarrow> 2) \<and>
   message_of (last (container (clearChat now s))) =
     Inr (Bot, ''Chat cleared! How can I help you?'', now) \<and>
   messageCount (clearChat now s) = 1 \<and>
   clearChat now (clearChat earlier s) = clearChat now s"
proof -
  have c: "container (clearChat t s) =
     (case querySelector (container s) of None \<Rightarrow> [] | Some w \<Rightarrow> [w]) @
     [Bubble (typeText (JStr ''Chat cleared! How can I help you?'')
        \<lparr>sender = Bot, textContent = [], timeText = t, words = [], cursor = None\<rparr>)]" for t
    by (simp add: clearChat_def addMessage_def Let_def split: option.splits)
  have f: "querySelector (container (clearChat t s)) = querySelector (container s)" for t
  proof (cases "querySelector (container s)")
    case None
    then show ?thesis by (simp add: c)
  next
    case (Some w)
    then show ?thesis using querySelector_matches(2) [OF Some] by (simp add: c)
  qed
  have i: "clearChat now (clearChat earlier s) = clearChat now s"
    unfolding clearChat_def [of now "clearChat earlier s"] f
    by (simp add: clearChat_def addMessage_def Let_def split: option.splits)
  have l: "length (container (clearChat now s)) =
     (case querySelector (container s) of None \<Rightarrow> 1 | Some w \<Rightarrow> 2)"
    by (simp add: c split: option.splits)
  have m: "message_of (last (container (clearChat now s))) =
     Inr (Bot, ''Chat cleared! How can I help you?'', now)"
    by (simp add: c typeText_finish_typeText typeText_keeps)
  have n: "messageCount (clearChat now s) = 1"
    by (simp add: clearChat_def addMessage_def Let_def split: option.splits)
  from c [of now] l m n i show ?thesis by blast
qed

theorem clearChat_result_witness:
  "container (clearChat ''10:05'' (clearChat ''10:00'' (new_ChatBot welcome_page))) =
     [Page True ''Hello! How can I help you today?'' [],
      Bubble \<lparr>sender = Bot, textContent = ''Chat'', timeText = ''10:05'',
              words = [''Chat'', ''cleared!'', ''How'', ''can'', ''I'', ''help'', ''you?''],
              cursor = Some 0\<rparr>] \<and>
   messageCount (clearChat ''10:05'' (clearChat ''10:00'' (new_ChatBot welcome_page))) = 1 \<and>
   container (new_ChatBot nested_page) =
     [Bubble \<lparr>sender = User, textContent = ''Hi'', timeText = ''09:00'', words = [], cursor = None\<rparr>,
      Page False ''wrap'' [Page True ''Hello! How can I help you today?'' []]] \<and>
   container (clearChat ''10:00'' (new_ChatBot nested_page)) =
     [Page True ''Hello! How can I help you today?'' [],
      Bubble \<lparr>sender = Bot, textContent = ''Chat'', timeText = ''10:00'',
              words = [''Chat'', ''cleared!'', ''How'', ''can'', ''I'', ''help'', ''you?''],
              cursor = Some 0\<rparr>]"
  using clearChat_result [of "''10:05''" "new_ChatBot welcome_page" "''10:00''", THEN conjunct1]
        clearChat_result [of "''10:00''" "new_ChatBot nested_page" "''09:59''", THEN conjunct1]
        clearChat_result [of "''10:05''" "new_ChatBot welcome_page" "''10:00''",
          THEN conjunct2, THEN conjunct2, THEN conjunct2]
  by (simp add: new_ChatBot_def init_def applyTheme_def checkBackendHealth_def showLoading_def
      welcome_page_def nested_page_def typeText_def typeText_iteration_def)

text \<open>
  On a page with a welcome element the container has two elements after \<open>clearChat\<close>,
  the welcome element and the new bot Message: its length is not 1, and the welcome
  element is not its only element.
\<close>

theorem clearChat_counterexample:
  "length (container (clearChat ''10:00'' (new_ChatBot welcome_page))) = 2 \<and>
   length (container (clearChat ''10:00'' (new_ChatBot welcome_page))) \<noteq> 1 \<and>
   container (clearChat ''10:00'' (new_ChatBot welcome_page)) ! 0 =
     Page True ''Hello! How can I help you today?'' [] \<and>
   message_of (container (clearChat ''10:00'' (new_ChatBot welcome_page)) ! 1) =
     Inr (Bot, ''Chat cleared! How can I help you?'', ''10:00'')"
  by (simp add: clearChat_def addMessage_def Let_def new_ChatBot_def init_def applyTheme_def
      checkBackendHealth_def showLoading_def welcome_page_def
      typeText_finish_typeText typeText_keeps)

subsection \<open>The theme\<close>

lemma stored_theme_toggled:
  "stored_theme (localStorage (toggleTheme s)) = currentTheme (toggleTheme s)"
  by (simp add: toggleTheme_def applyTheme_def stored_theme_def Let_def)

lemma new_ChatBot_theme:
  "currentTheme (new_ChatBot page) = stored_theme (localStorage page)"
  "dataTheme (new_ChatBot page) = Some (stored_theme (localStorage page))"
  "localStorage (new_ChatBot page) = localStorage page"
  by (simp_all add: new_ChatBot_def init_def applyTheme_def checkBackendHealth_def showLoading_def)

lemma theme_kept_new: "theme_kept (new_ChatBot page)"
  by (simp add: theme_kept_def new_ChatBot_theme)

lemma theme_kept_step: "theme_kept s \<Longrightarrow> theme_kept (step ev s)"
  by (cases ev)
     (auto simp: theme_kept_def method_defs stored_theme_def Let_def
           split: sum.splits chat_call.splits option.splits node.splits if_splits)

lemma theme_kept_run: "theme_kept s \<Longrightarrow> theme_kept (run evs s)"
  unfolding run_def by (induction evs arbitrary: s) (simp_all add: theme_kept_step)

text \<open>
  C6. When the theme is \<open>light\<close> or \<open>dark\<close>, two calls of \<open>toggleTheme\<close> give back the
  theme. After every \<open>toggleTheme\<close> the stored preference and the applied theme are the
  theme of the object. A session that starts on the storage a \<open>toggleTheme\<close> left has
  that theme and applies it; and so for the storage that any session leaves, whatever
  happened in it.
\<close>

theorem toggleTheme_twice:
  "(currentTheme s = ''light'' \<or> currentTheme s = ''dark'' \<longrightarrow>
      currentTheme (toggleTheme (toggleTheme s)) = currentTheme s) \<and>
   localStorage (toggleTheme s) ''theme'' = Some (currentTheme (toggleTheme s)) \<and>
   dataTheme (toggleTheme s) = Some (currentTheme (toggleTheme s)) \<and>
   (localStorage page = localStorage (toggleTheme s) \<longrightarrow>
      currentTheme (new_ChatBot page) = currentTheme (toggleTheme s) \<and>
      dataTheme (new_ChatBot page) = Some (currentTheme (toggleTheme s))) \<and>
   (localStorage page = localStorage (run evs (new_ChatBot first)) \<longrightarrow>
      currentTheme (new_ChatBot page) = currentTheme (run evs (new_ChatBot first)) \<and>
      dataTheme (run evs (new_ChatBot first)) = Some (currentTheme (run evs (new_ChatBot first))))"
proof -
  have "localStorage page = localStorage (toggleTheme s) \<Longrightarrow>
      stored_theme (localStorage page) = currentTheme (toggleTheme s)"
    using stored_theme_toggled [of s] by simp
  moreover have "theme_kept (run evs (new_ChatBot first))"
    by (rule theme_kept_run [OF theme_kept_new])
  ultimately show ?thesis
    by (auto simp: new_ChatBot_theme theme_kept_def)
       (auto simp: toggleTheme_def applyTheme_def Let_def)
qed

theorem toggleTheme_twice_witness:
  "currentTheme (new_ChatBot welcome_page) = ''light'' \<and>
   currentTheme (toggleTheme (new_ChatBot welcome_page)) = ''dark'' \<and>
   currentTheme (toggleTheme (toggleTheme (new_ChatBot welcome_page))) = ''light'' \<and>
   localStorage (toggleTheme (new_ChatBot welcome_page)) ''theme'' = Some ''dark'' \<and>
   run [ToggleTheme] (new_ChatBot welcome_page) = toggleTheme (new_ChatBot welcome_page) \<and>
   currentTheme (new_ChatBot
     (welcome_page\<lparr>localStorage := localStorage (toggleTheme (new_ChatBot welcome_page))\<rparr>)) = ''dark''"
proof -
  have r: "run [ToggleTheme] (new_ChatBot welcome_page) = toggleTheme (new_ChatBot welcome_page)"
    by (simp add: run_def)
  from toggleTheme_twice [of "new_ChatBot welcome_page"
      "welcome_page\<lparr>localStorage := localStorage (toggleTheme (new_ChatBot welcome_page))\<rparr>"
      "[ToggleTheme]" welcome_page]
  show ?thesis
    unfolding r
    by (simp add: new_ChatBot_theme stored_theme_def welcome_page_def toggleTheme_def
        applyTheme_def Let_def)
qed

subsection \<open>The transcript\<close>

lemma message_of_resume: "message_of (Bubble (typeText_resume b)) = message_of (Bubble b)"
  by (simp add: typeText_finish_resume typeText_resume_keeps)

lemma message_of_tick:
  "k < length xs \<Longrightarrow> xs ! k = Bubble b \<Longrightarrow>
     map message_of (xs[k := Bubble (typeText_resume b)]) = map message_of xs"
  by (simp only: map_update message_of_resume) (metis list_update_id nth_map)

lemma container_step:
  "\<not> is_clear ev \<Longrightarrow> \<not> is_tick ev \<Longrightarrow> prefix (container s) (container (step ev s))"
  by (cases ev)
     (auto simp: method_defs Let_def split: sum.splits chat_call.splits option.splits)

lemma container_tick:
  "map message_of (container (type_tick k s)) = map message_of (container s)"
  by (auto simp: type_tick_def message_of_tick split: node.splits)

text \<open>
  C7. Every event of a session but \<open>clearChat\<close> leaves the transcript as it was and at
  most appends to it: the Messages before the event are a prefix of the Messages after
  it, each with its sender, text and time, in the same order. Every such event but a tick
  of the typing animation leaves the elements themselves as they were; a tick shows one
  more word of a bot Message, and the Message the element stands for is the same.
\<close>

theorem transcript_append_only:
  "\<not> is_clear ev \<longrightarrow>
     prefix (map message_of (container s)) (map message_of (container (step ev s))) \<and>
     (\<not> is_tick ev \<longrightarrow> prefix (container s) (container (step ev s)))"
proof (cases "is_tick ev")
  case True
  then obtain k where "ev = TypeTick k" by (cases ev) auto
  then show ?thesis by (simp add: container_tick)
next
  case False
  then show ?thesis
    using container_step [of ev s] by (auto simp: map_mono_prefix)
qed

theorem transcript_append_only_witness:
  "\<not> is_clear (Send ''10:00'') \<and> \<not> is_tick (Send ''10:00'') \<and>
   container (new_ChatBot hello_page) = [Page True ''Hello! How can I help you today?'' []] \<and>
   prefix (container (new_ChatBot hello_page))
     (container (step (Send ''10:00'') (new_ChatBot hello_page))) \<and>
   length (container (step (Send ''10:00'') (new_ChatBot hello_page))) = 2 \<and>
   \<not> is_clear (TypeTick 1) \<and>
   prefix (map message_of (container (clearChat ''10:00'' (new_ChatBot welcome_page))))
     (map message_of (container (step (TypeTick 1) (clearChat ''10:00'' (new_ChatBot welcome_page)))))"
proof -
  have c: "container (new_ChatBot hello_page) = [Page True ''Hello! How can I help you today?'' []]"
    by (simp add: method_defs sample_defs)
  from transcript_append_only [of "Send ''10:00''" "new_ChatBot hello_page"]
       transcript_append_only [of "TypeTick 1" "clearChat ''10:00'' (new_ChatBot welcome_page)"]
  show ?thesis
    by (simp add: c hello_sent)
qed

end
